theory Spec2Isabelle
  imports Main "HOL-Library.Char_ord" "HOL-Library.List_Lexorder" "HOL-Library.AList"
begin

section \<open>The query store (createQueryStore) as a state machine\<close>

text \<open>
  The development embeds \<^verbatim>\<open>createQueryStore\<close> and its helpers \<^verbatim>\<open>getQueryKey\<close> and
  \<^verbatim>\<open>pruneCache\<close>. The store is single threaded: every function below is one
  synchronous block of the source, run to completion on a world that holds the zustand
  state and the closure variables of \<^verbatim>\<open>createQueryStore\<close>. An \<^verbatim>\<open>async\<close> function is split
  at its \<^verbatim>\<open>await\<close>: \<open>fetch\<close> runs up to the point where the fetcher has been called, and
  \<open>fetchOperation_resume\<close> is the continuation that runs once the fetcher has settled.

  Conventions.
  \<^item> Times and durations are whole milliseconds. A JavaScript number is an \<open>int\<close> where
    the source only ever holds a timestamp or a counter, and a \<open>number\<close> (an integer or
    \<open>Infinity\<close>) where the source compares against \<open>Infinity\<close>. \<open>NaN\<close> and fractions are
    outside the model.
  \<^item> \<^verbatim>\<open>Date.now()\<close> is the argument \<open>now\<close>; one synchronous block reads one clock value.
  \<^item> \<open>None\<close> stands for \<^verbatim>\<open>null\<close> and \<^verbatim>\<open>undefined\<close>.
  \<^item> Promises, abort controllers and timers are objects with an identity: each is a
    natural number drawn from a counter of the world.
\<close>

subsection \<open>Numbers and thrown values\<close>

datatype number = Fin int | Infinity

text \<open>\<open>le_num a b\<close> is \<^verbatim>\<open>a <= b\<close> and \<open>lt_num a b\<close> is \<^verbatim>\<open>a < b\<close>.\<close>

fun le_num :: "number \<Rightarrow> number \<Rightarrow> bool" where
  "le_num (Fin a) (Fin b) = (a \<le> b)"
| "le_num _ Infinity = True"
| "le_num Infinity (Fin b) = False"

fun lt_num :: "number \<Rightarrow> number \<Rightarrow> bool" where
  "lt_num (Fin a) (Fin b) = (a < b)"
| "lt_num (Fin a) Infinity = True"
| "lt_num Infinity _ = False"

text \<open>
  A value that can be thrown or can reject a promise. \<open>ABORT_ERROR\<close> is the module's
  sentinel object (compared by identity in the source, so it is a constructor of its own);
  \<open>ErrorObj name message\<close> is any other instance of \<^verbatim>\<open>Error\<close>; \<open>RainbowError message cause\<close>
  is the wrapper the store builds around an exception of \<^verbatim>\<open>transform\<close>; \<open>NonError s\<close> is
  a thrown value that is not an \<^verbatim>\<open>Error\<close>, with \<^verbatim>\<open>String(x) = s\<close>.
\<close>

datatype thrown =
    ABORT_ERROR
  | ErrorObj string string
  | RainbowError string thrown
  | NonError string

text \<open>
  The test of the catch block:
  \<^verbatim>\<open>error === ABORT_ERROR || (error instanceof Error && error.name === 'AbortError')\<close>.
\<close>

fun isAbortError :: "thrown \<Rightarrow> bool" where
  "isAbortError ABORT_ERROR = True"
| "isAbortError (ErrorObj name message) = (name = ''AbortError'')"
| "isAbortError (RainbowError message cause) = False"
| "isAbortError (NonError s) = False"

text \<open>\<^verbatim>\<open>error instanceof Error ? error : new Error(String(error))\<close>\<close>

fun typedError :: "thrown \<Rightarrow> thrown" where
  "typedError (NonError s) = ErrorObj ''Error'' s"
| "typedError e = e"

subsection \<open>Parameters and the query key\<close>

text \<open>
  A parameter object is the list of its own properties in insertion order, with distinct
  keys. \<^verbatim>\<open>JSON.stringify\<close> is the platform's; it is taken as a parameter, applied to the
  array of the looked-up values (\<open>None\<close> for \<^verbatim>\<open>undefined\<close>). \<^verbatim>\<open>Array.prototype.sort\<close>
  without a comparator orders strings by their code units, which is the lexicographic
  order on \<open>string\<close>.
\<close>

type_synonym 'v Params = "(string \<times> 'v) list"

definition getQueryKey :: "('v option list \<Rightarrow> string) \<Rightarrow> 'v Params \<Rightarrow> string" where
  "getQueryKey stringify params =
     stringify (map (\<lambda>key. map_of params key) (sort (map fst params)))"

subsection \<open>Cache entries and store state\<close>

datatype QueryStatus = Error | Idle | Loading | Success

record ErrorInfo =
  errorInfo_error :: thrown
  lastFailedAt :: int
  retryCount :: int

text \<open>
  The type \<^verbatim>\<open>CacheEntry<TData>\<close> is \<^verbatim>\<open>{cacheTime, data}\<close> intersected with a union of two
  shapes: \<^verbatim>\<open>{errorInfo: {...}; lastFetchedAt: null}\<close> and
  \<^verbatim>\<open>{errorInfo: {...} | null; lastFetchedAt: number}\<close>. \<open>FetchInfo\<close> is that union.
\<close>

datatype FetchInfo =
    NeverFetched ErrorInfo
  | FetchedAt int "ErrorInfo option"

fun info_lastFetchedAt :: "FetchInfo \<Rightarrow> int option" where
  "info_lastFetchedAt (NeverFetched ei) = None"
| "info_lastFetchedAt (FetchedAt t eio) = Some t"

fun info_errorInfo :: "FetchInfo \<Rightarrow> ErrorInfo option" where
  "info_errorInfo (NeverFetched ei) = Some ei"
| "info_errorInfo (FetchedAt t eio) = eio"

record 'd CacheEntry =
  entry_cacheTime :: number
  entry_data :: "'d option"
  entry_info :: FetchInfo

definition entry_lastFetchedAt :: "'d CacheEntry \<Rightarrow> int option" where
  "entry_lastFetchedAt entry = info_lastFetchedAt (entry_info entry)"

definition entry_errorInfo :: "'d CacheEntry \<Rightarrow> ErrorInfo option" where
  "entry_errorInfo entry = info_errorInfo (entry_info entry)"

text \<open>
  Building the entry literal of the error handler from \<^verbatim>\<open>lastFetchedAt\<close> and
  \<^verbatim>\<open>errorInfo\<close>.
\<close>

fun mkInfo :: "int option \<Rightarrow> ErrorInfo \<Rightarrow> FetchInfo" where
  "mkInfo None ei = NeverFetched ei"
| "mkInfo (Some t) ei = FetchedAt t (Some ei)"

text \<open>
  The data fields of the zustand state (\<^verbatim>\<open>StoreState\<close> without its methods). The query
  cache is an object used as a dictionary: an association list in insertion order.
\<close>

record 'd StoreState =
  enabled :: bool
  error :: "thrown option"
  lastFetchedAt :: "int option"
  queryCache :: "(string \<times> 'd CacheEntry) list"
  queryKey :: string
  status :: QueryStatus

subsection \<open>Configuration and fetch options\<close>

datatype 'v CacheTimeConfig = CacheTimeNumber number | CacheTimeFunction "'v Params \<Rightarrow> number"

datatype RetryDelayConfig = RetryDelayNumber number | RetryDelayFunction "int \<Rightarrow> thrown \<Rightarrow> number"

text \<open>
  The configuration after destructuring with its defaults. The user's callbacks are
  modelled by what the store can observe of them:
  \<^item> \<open>fetcher params\<close> is \<open>Some e\<close> when the call itself throws \<open>e\<close>, and \<open>None\<close> when it
    returns a value or a promise; how that settles is the argument of
    \<open>fetchOperation_resume\<close>;
  \<^item> \<open>transform\<close> returns the transformed data or throws (\<open>Inl\<close>); a store configured
    without \<^verbatim>\<open>transform\<close> has \<open>\<lambda>raw params. Inr raw\<close>;
  \<^item> \<open>onError\<close> is absent or a callback that returns (\<open>None\<close>) or throws (\<open>Some e\<close>);
  \<^item> \<open>setData\<close> says whether the callback is configured: what it stores lives in the
    user's part of the state, which is not modelled, and it is taken to return normally;
  \<^item> \<^verbatim>\<open>onFetched\<close> runs inside its own \<^verbatim>\<open>try\<close>/\<^verbatim>\<open>catch\<close> and is left out;
  \<^item> a \<^verbatim>\<open>cacheTime\<close> or \<^verbatim>\<open>retryDelay\<close> given as a function is a total function.
  \<open>storageKey\<close> is \<^verbatim>\<open>persistConfig?.storageKey\<close> and \<open>JSON_stringify\<close> the platform function
  used by \<open>getQueryKey\<close>.
\<close>

record ('raw, 'd, 'v) QueryStoreConfig =
  fetcher :: "'v Params \<Rightarrow> thrown option"
  onError :: "(thrown \<Rightarrow> int \<Rightarrow> thrown option) option"
  setData :: bool
  transform :: "'raw \<Rightarrow> 'v Params \<Rightarrow> thrown + 'd"
  abortInterruptedFetches :: bool
  cacheTime :: "'v CacheTimeConfig"
  disableAutoRefetching :: bool
  disableCache :: bool
  initialEnabled :: bool
  keepPreviousData :: bool
  maxRetries :: int
  retryDelay :: RetryDelayConfig
  staleTime :: number
  storageKey :: "string option"
  JSON_stringify :: "'v option list \<Rightarrow> string"

text \<open>
  \<^verbatim>\<open>FetchOptions\<close>; a call without options is \<open>noOptions\<close>. The source never reads
  \<^verbatim>\<open>options.cacheTime\<close>.
\<close>

record FetchOptions =
  opt_cacheTime :: "number option"
  force :: bool
  skipStoreUpdates :: bool
  opt_staleTime :: "number option"

definition noOptions :: FetchOptions where
  "noOptions = \<lparr>opt_cacheTime = None, force = False, skipStoreUpdates = False, opt_staleTime = None\<rparr>"


subsection \<open>The world: zustand state and closure variables\<close>

datatype 'd PromiseState =
    Pending
  | Fulfilled "'d option"
  | Rejected thrown
  | Follows nat

text \<open>
  \<open>Follows q\<close>: the promise was resolved with the promise \<open>q\<close> and settles as \<open>q\<close> does.
  That is the state of the promise of an \<^verbatim>\<open>async\<close> function after \<^verbatim>\<open>return q\<close>.
\<close>

record 'v Timer =
  delay :: int
  timer_params :: "'v Params option"

text \<open>
  Both timer callbacks of the source have one shape: when the timer fires and the store
  is enabled and subscribed, \<^verbatim>\<open>get().fetch(params, { force: true })\<close>; a timer is its delay
  and that \<^verbatim>\<open>params\<close>.
\<close>

text \<open>
  A fetch operation suspended at \<^verbatim>\<open>await\<close>: the variables its continuation closes over.
\<close>

record 'v FetchOp =
  op_params :: "'v Params"
  op_key :: string
  op_argParams :: "'v Params option"
  op_options :: FetchOptions
  op_promise :: nat
  op_controller :: "nat option"

text \<open>
  \<open>state\<close> is the zustand state. \<open>activeAbortController\<close>, \<open>activeFetch\<close>,
  \<open>activeRefetchTimeout\<close>, \<open>lastFetchKey\<close> and \<open>lastHandledEnabled\<close> are the closure variables
  of those names.
  \<open>sm_enabled\<close> and \<open>subscriptionCount\<close> are what \<^verbatim>\<open>subscriptionManager.get()\<close> returns and
  \<open>resolvedParams\<close> what \<^verbatim>\<open>getCurrentResolvedParams(attachVals, directValues)\<close> returns.
  \<open>promises\<close>, \<open>aborted\<close>, \<open>timers\<close> and \<open>pending\<close> are the runtime's: the state of every
  promise, the controllers whose signal has fired, the timers that are still armed, and
  the operations waiting at their \<^verbatim>\<open>await\<close>. \<open>fetcherCalls\<close> and \<open>onErrorCalls\<close> record the
  calls made to the two callbacks.
\<close>

record ('d, 'v) World =
  state :: "'d StoreState"
  activeAbortController :: "nat option"
  activeFetch :: "(string \<times> nat option) option"
  activeRefetchTimeout :: "nat option"
  lastFetchKey :: "string option"
  lastHandledEnabled :: "bool option"
  sm_enabled :: bool
  subscriptionCount :: nat
  resolvedParams :: "'v Params"
  promises :: "nat \<Rightarrow> 'd PromiseState"
  nextPromise :: nat
  nextController :: nat
  aborted :: "nat list"
  timers :: "(nat \<times> 'v Timer) list"
  nextTimer :: nat
  pending :: "'v FetchOp list"
  fetcherCalls :: "('v Params \<times> nat option) list"
  onErrorCalls :: "(thrown \<times> int) list"

text \<open>\<^verbatim>\<open>set((state) => ...)\<close>\<close>

definition set_state :: "('d StoreState \<Rightarrow> 'd StoreState) \<Rightarrow> ('d, 'v) World \<Rightarrow> ('d, 'v) World" where
  "set_state f w = w\<lparr>state := f (state w)\<rparr>"

text \<open>Calling an \<^verbatim>\<open>async\<close> function creates its promise.\<close>

definition newPromise :: "('d, 'v) World \<Rightarrow> nat \<times> ('d, 'v) World" where
  "newPromise w =
     (nextPromise w,
      w\<lparr>promises := (promises w)(nextPromise w := Pending), nextPromise := Suc (nextPromise w)\<rparr>)"

definition resolvePromise :: "nat \<Rightarrow> 'd PromiseState \<Rightarrow> ('d, 'v) World \<Rightarrow> ('d, 'v) World" where
  "resolvePromise p r w = w\<lparr>promises := (promises w)(p := r)\<rparr>"

text \<open>What awaiting the promise \<open>p\<close> observes: one \<open>Follows\<close> link is followed.\<close>

definition promiseOutcome :: "('d, 'v) World \<Rightarrow> nat \<Rightarrow> 'd PromiseState" where
  "promiseOutcome w p = (case promises w p of Follows q \<Rightarrow> promises w q | r \<Rightarrow> r)"

text \<open>\<^verbatim>\<open>activeRefetchTimeout = setTimeout(callback, delay)\<close>\<close>

definition setTimeout :: "'v Timer \<Rightarrow> ('d, 'v) World \<Rightarrow> ('d, 'v) World" where
  "setTimeout t w =
     w\<lparr>timers := timers w @ [(nextTimer w, t)],
       activeRefetchTimeout := Some (nextTimer w),
       nextTimer := Suc (nextTimer w)\<rparr>"

text \<open>
  \<^verbatim>\<open>if (activeRefetchTimeout) { clearTimeout(activeRefetchTimeout); activeRefetchTimeout = null; }\<close>
\<close>

definition clearActiveRefetchTimeout :: "('d, 'v) World \<Rightarrow> ('d, 'v) World" where
  "clearActiveRefetchTimeout w =
     (case activeRefetchTimeout w of
        None \<Rightarrow> w
      | Some i \<Rightarrow> w\<lparr>timers := filter (\<lambda>(j, t). j \<noteq> i) (timers w), activeRefetchTimeout := None\<rparr>)"

definition abortActiveFetch :: "('d, 'v) World \<Rightarrow> ('d, 'v) World" where
  "abortActiveFetch w =
     (case activeAbortController w of
        None \<Rightarrow> w
      | Some c \<Rightarrow> w\<lparr>aborted := c # aborted w, activeAbortController := None\<rparr>)"

text \<open>\<^verbatim>\<open>x || null\<close> on a number or null: \<open>0\<close> is falsy.\<close>

fun orNull :: "int option \<Rightarrow> int option" where
  "orNull None = None"
| "orNull (Some t) = (if t = 0 then None else Some t)"

text \<open>
  The expression that \<^verbatim>\<open>scheduleNextFetch\<close>, \<^verbatim>\<open>fetch\<close>, \<^verbatim>\<open>getStatus\<close>, \<^verbatim>\<open>isDataExpired\<close> and
  \<^verbatim>\<open>isStale\<close> each bind to their local \<^verbatim>\<open>lastFetchedAt\<close>:
  \<^verbatim>\<open>(disableCache ? lastFetchKey === key && get().lastFetchedAt
                  : get().queryCache[key]?.lastFetchedAt) || null\<close>.
\<close>

definition localLastFetchedAt ::
  "('raw, 'd, 'v) QueryStoreConfig \<Rightarrow> string \<Rightarrow> ('d, 'v) World \<Rightarrow> int option" where
  "localLastFetchedAt cfg key w =
     orNull
       (if disableCache cfg
        then (if lastFetchKey w = Some key then lastFetchedAt (state w) else None)
        else (case map_of (queryCache (state w)) key of
                None \<Rightarrow> None
              | Some entry \<Rightarrow> entry_lastFetchedAt entry))"

text \<open>\<^verbatim>\<open>options?.staleTime ?? staleTime\<close>\<close>

definition effectiveStaleTime :: "('raw, 'd, 'v) QueryStoreConfig \<Rightarrow> FetchOptions \<Rightarrow> number" where
  "effectiveStaleTime cfg options =
     (case opt_staleTime options of Some s \<Rightarrow> s | None \<Rightarrow> staleTime cfg)"

subsection \<open>scheduleNextFetch\<close>

definition scheduleNextFetch ::
  "('raw, 'd, 'v) QueryStoreConfig \<Rightarrow> int \<Rightarrow> 'v Params \<Rightarrow> FetchOptions \<Rightarrow>
     ('d, 'v) World \<Rightarrow> ('d, 'v) World" where
  "scheduleNextFetch cfg now params options w =
     (if disableAutoRefetching cfg then w
      else
        (case effectiveStaleTime cfg options of
           Infinity \<Rightarrow> w
         | Fin s \<Rightarrow>
             if s \<le> 0 then w
             else
               (let w1 = clearActiveRefetchTimeout w;
                    currentQueryKey = getQueryKey (JSON_stringify cfg) params;
                    timeUntilRefetch =
                      (case localLastFetchedAt cfg currentQueryKey w1 of
                         Some t \<Rightarrow> s - (now - t)
                       | None \<Rightarrow> s)
                in setTimeout \<lparr>delay = timeUntilRefetch, timer_params = Some params\<rparr> w1)))"

subsection \<open>pruneCache\<close>

text \<open>
  \<^verbatim>\<open>pruneTime - (entry.lastFetchedAt ?? entry.errorInfo.lastFailedAt) <= entry.cacheTime
     || key === preserve\<close>
\<close>

fun lastTimestamp :: "FetchInfo \<Rightarrow> int" where
  "lastTimestamp (FetchedAt t eio) = t"
| "lastTimestamp (NeverFetched ei) = lastFailedAt ei"

definition isValid :: "string option \<Rightarrow> int \<Rightarrow> string \<times> 'd CacheEntry \<Rightarrow> bool" where
  "isValid preserve pruneTime kv =
     (case kv of (key, entry) \<Rightarrow>
        le_num (Fin (pruneTime - lastTimestamp (entry_info entry))) (entry_cacheTime entry)
        \<or> Some key = preserve)"

text \<open>
  \<^verbatim>\<open>keyToPreserve ?? ((keepPreviousData && state.queryKey) || null)\<close>; the empty string is
  falsy.
\<close>

definition preservedKey :: "bool \<Rightarrow> string option \<Rightarrow> 'd StoreState \<Rightarrow> string option" where
  "preservedKey keepPrevious keyToPreserve st =
     (case keyToPreserve of
        Some k \<Rightarrow> Some k
      | None \<Rightarrow> if keepPrevious \<and> queryKey st \<noteq> [] then Some (queryKey st) else None)"

definition pruneCache :: "bool \<Rightarrow> string option \<Rightarrow> int \<Rightarrow> 'd StoreState \<Rightarrow> 'd StoreState" where
  "pruneCache keepPrevious keyToPreserve pruneTime st =
     (let preserve = preservedKey keepPrevious keyToPreserve st;
          newCache = filter (isValid preserve pruneTime) (queryCache st);
          prunedSomething = list_ex (\<lambda>kv. \<not> isValid preserve pruneTime kv) (queryCache st)
      in if \<not> prunedSomething then st else st\<lparr>queryCache := newCache\<rparr>)"

subsection \<open>fetchOperation: the catch block\<close>

text \<open>\<^verbatim>\<open>cacheTimeIsFunction ? cacheTime(effectiveParams) : cacheTime\<close>\<close>

definition evalCacheTime :: "('raw, 'd, 'v) QueryStoreConfig \<Rightarrow> 'v Params \<Rightarrow> number" where
  "evalCacheTime cfg params =
     (case cacheTime cfg of CacheTimeNumber n \<Rightarrow> n | CacheTimeFunction f \<Rightarrow> f params)"

text \<open>\<^verbatim>\<open>cacheTime === Infinity\<close>\<close>

definition cacheTimeIsInfinity :: "('raw, 'd, 'v) QueryStoreConfig \<Rightarrow> bool" where
  "cacheTimeIsInfinity cfg =
     (case cacheTime cfg of
        CacheTimeNumber n \<Rightarrow> (case n of Infinity \<Rightarrow> True | Fin c \<Rightarrow> False)
      | CacheTimeFunction f \<Rightarrow> False)"

text \<open>
  \<^verbatim>\<open>typeof retryDelay === 'function' ? retryDelay(currentRetryCount, typedError) : retryDelay\<close>
\<close>

definition errorRetryDelay :: "('raw, 'd, 'v) QueryStoreConfig \<Rightarrow> int \<Rightarrow> thrown \<Rightarrow> number" where
  "errorRetryDelay cfg currentRetryCount typed =
     (case retryDelay cfg of
        RetryDelayNumber n \<Rightarrow> n
      | RetryDelayFunction f \<Rightarrow> f currentRetryCount typed)"

text \<open>\<^verbatim>\<open>persistConfig?.storageKey || currentQueryKey\<close>\<close>

definition errorLabel :: "('raw, 'd, 'v) QueryStoreConfig \<Rightarrow> string \<Rightarrow> string" where
  "errorLabel cfg currentQueryKey =
     (case storageKey cfg of
        None \<Rightarrow> currentQueryKey
      | Some k \<Rightarrow> if k = [] then currentQueryKey else k)"

text \<open>
  \<^verbatim>\<open>entry?.errorInfo?.retryCount ?? 0\<close>, where \<open>entry\<close> is
  \<^verbatim>\<open>disableCache ? undefined : get().queryCache[currentQueryKey]\<close>.
\<close>

definition catchEntry ::
  "('raw, 'd, 'v) QueryStoreConfig \<Rightarrow> string \<Rightarrow> ('d, 'v) World \<Rightarrow> 'd CacheEntry option" where
  "catchEntry cfg currentQueryKey w =
     (if disableCache cfg then None else map_of (queryCache (state w)) currentQueryKey)"

definition currentRetryCount :: "'d CacheEntry option \<Rightarrow> int" where
  "currentRetryCount entry =
     (case entry of
        None \<Rightarrow> 0
      | Some e \<Rightarrow> (case entry_errorInfo e of None \<Rightarrow> 0 | Some ei \<Rightarrow> retryCount ei))"

text \<open>
  The entry literal that both branches of the catch block write; they differ in
  \<open>retryCount\<close> only.
\<close>

definition errorEntry ::
  "('raw, 'd, 'v) QueryStoreConfig \<Rightarrow> int \<Rightarrow> 'v FetchOp \<Rightarrow> 'd CacheEntry option \<Rightarrow> thrown \<Rightarrow> int
     \<Rightarrow> 'd CacheEntry" where
  "errorEntry cfg now op entry typed count =
     \<lparr>entry_cacheTime =
        (case entry of Some e \<Rightarrow> entry_cacheTime e | None \<Rightarrow> evalCacheTime cfg (op_params op)),
      entry_data = (case entry of Some e \<Rightarrow> entry_data e | None \<Rightarrow> None),
      entry_info =
        mkInfo (case entry of Some e \<Rightarrow> entry_lastFetchedAt e | None \<Rightarrow> None)
          \<lparr>errorInfo_error = typed, lastFailedAt = now, retryCount = count\<rparr>\<rparr>"

text \<open>The updater passed to \<^verbatim>\<open>set\<close> in both branches.\<close>

definition recordError ::
  "('raw, 'd, 'v) QueryStoreConfig \<Rightarrow> 'v FetchOp \<Rightarrow> thrown \<Rightarrow> 'd CacheEntry \<Rightarrow> 'd StoreState
     \<Rightarrow> 'd StoreState" where
  "recordError cfg op typed newEntry st =
     st\<lparr>error := Some typed,
        queryCache := AList.update (op_key op) newEntry (queryCache st),
        queryKey := (if keepPreviousData cfg then op_key op else queryKey st),
        status := Error\<rparr>"

text \<open>The catch block from \<^verbatim>\<open>if (currentRetryCount < maxRetries)\<close> on.\<close>

definition handleFetchError ::
  "('raw, 'd, 'v) QueryStoreConfig \<Rightarrow> int \<Rightarrow> 'v FetchOp \<Rightarrow> thrown \<Rightarrow> 'd CacheEntry option
     \<Rightarrow> ('d, 'v) World \<Rightarrow> ('d, 'v) World" where
  "handleFetchError cfg now op typed entry w =
     (if currentRetryCount entry < maxRetries cfg then
        (let w1 =
           (if subscriptionCount w > 0 then
              (case errorRetryDelay cfg (currentRetryCount entry) typed of
                 Infinity \<Rightarrow> w
               | Fin d \<Rightarrow> setTimeout \<lparr>delay = d, timer_params = op_argParams op\<rparr> w)
            else w)
         in set_state
              (recordError cfg op typed
                 (errorEntry cfg now op entry typed (currentRetryCount entry + 1))) w1)
      else
        set_state
          (recordError cfg op typed (errorEntry cfg now op entry typed (maxRetries cfg))) w)"

text \<open>
  The whole catch block. Its result is how the \<^verbatim>\<open>async\<close> function completes:
  \<open>Fulfilled None\<close> for \<^verbatim>\<open>return null\<close>, \<open>Rejected e\<close> when \<^verbatim>\<open>onError\<close>, which is called
  outside any \<^verbatim>\<open>try\<close>, throws \<open>e\<close>.
\<close>

definition fetchOperation_catch ::
  "('raw, 'd, 'v) QueryStoreConfig \<Rightarrow> int \<Rightarrow> 'v FetchOp \<Rightarrow> thrown \<Rightarrow> ('d, 'v) World
     \<Rightarrow> 'd PromiseState \<times> ('d, 'v) World" where
  "fetchOperation_catch cfg now op e w =
     (if isAbortError e then (Fulfilled None, w)
      else if skipStoreUpdates (op_options op) then (Fulfilled None, w)
      else
        (let typed = typedError e;
             entry = catchEntry cfg (op_key op) w
         in case onError cfg of
              None \<Rightarrow> (Fulfilled None, handleFetchError cfg now op typed entry w)
            | Some callback \<Rightarrow>
                (let w1 = w\<lparr>onErrorCalls := onErrorCalls w @ [(typed, currentRetryCount entry)]\<rparr>
                 in case callback typed (currentRetryCount entry) of
                      Some thrownByCallback \<Rightarrow> (Rejected thrownByCallback, w1)
                    | None \<Rightarrow> (Fulfilled None, handleFetchError cfg now op typed entry w1))))"

text \<open>
  \<^verbatim>\<open>finally { if (!skipStoreUpdates) activeFetch = null; }\<close>, after which the promise of
  \<^verbatim>\<open>fetchOperation\<close> settles.
\<close>

definition fetchOperation_finally ::
  "'v FetchOp \<Rightarrow> 'd PromiseState \<Rightarrow> ('d, 'v) World \<Rightarrow> ('d, 'v) World" where
  "fetchOperation_finally op r w =
     resolvePromise (op_promise op) r
       (if skipStoreUpdates (op_options op) then w else w\<lparr>activeFetch := None\<rparr>)"

subsection \<open>fetchOperation: the success path\<close>

definition successEntry ::
  "('raw, 'd, 'v) QueryStoreConfig \<Rightarrow> int \<Rightarrow> 'v FetchOp \<Rightarrow> 'd option \<Rightarrow> 'd CacheEntry" where
  "successEntry cfg now op d =
     \<lparr>entry_cacheTime = evalCacheTime cfg (op_params op),
      entry_data = d,
      entry_info = FetchedAt now None\<rparr>"

text \<open>The updater passed to \<^verbatim>\<open>set\<close> after a successful fetch (source lines 815 to 884).\<close>

definition fetchSucceeded ::
  "('raw, 'd, 'v) QueryStoreConfig \<Rightarrow> int \<Rightarrow> 'v FetchOp \<Rightarrow> 'd \<Rightarrow> 'd StoreState \<Rightarrow> 'd StoreState" where
  "fetchSucceeded cfg now op transformedData st =
     (let newState =
            st\<lparr>error := None,
               lastFetchedAt := Some now,
               queryKey := (if keepPreviousData cfg then op_key op else queryKey st),
               status := Success\<rparr>;
          newState1 =
            (if \<not> setData cfg \<and> \<not> disableCache cfg then
               newState\<lparr>queryCache :=
                 AList.update (op_key op) (successEntry cfg now op (Some transformedData))
                   (queryCache newState)\<rparr>
             else if setData cfg then
               (if \<not> disableCache cfg then
                  newState\<lparr>queryCache :=
                    AList.update (op_key op) (successEntry cfg now op None) (queryCache newState)\<rparr>
                else newState)
             else newState)
      in if disableCache cfg \<or> cacheTimeIsInfinity cfg then newState1
         else pruneCache (keepPreviousData cfg) (Some (op_key op)) now newState1)"

subsection \<open>fetchOperation: start and continuation\<close>

datatype 'raw Settlement = Resolved 'raw | RejectedWith thrown

text \<open>
  \<^verbatim>\<open>finally { if (activeAbortController === abortController) activeAbortController = null; }\<close>
  of \<^verbatim>\<open>fetchWithAbortControl\<close>.
\<close>

definition fetchWithAbortControl_finally :: "'v FetchOp \<Rightarrow> ('d, 'v) World \<Rightarrow> ('d, 'v) World" where
  "fetchWithAbortControl_finally op w =
     (case op_controller op of
        None \<Rightarrow> w
      | Some c \<Rightarrow> if activeAbortController w = Some c then w\<lparr>activeAbortController := None\<rparr> else w)"

definition transformFailed :: "('raw, 'd, 'v) QueryStoreConfig \<Rightarrow> string \<Rightarrow> thrown \<Rightarrow> thrown" where
  "transformFailed cfg currentQueryKey transformError =
     RainbowError (''[createQueryStore: '' @ errorLabel cfg currentQueryKey @ '']: transform failed'')
       transformError"

text \<open>
  The continuation of \<^verbatim>\<open>fetchOperation\<close> after its \<^verbatim>\<open>await\<close>, for the operation \<open>op\<close> whose
  fetcher settled as \<open>outcome\<close>.
\<close>

definition fetchOperation_resume ::
  "('raw, 'd, 'v) QueryStoreConfig \<Rightarrow> int \<Rightarrow> 'v FetchOp \<Rightarrow> 'raw Settlement \<Rightarrow> ('d, 'v) World
     \<Rightarrow> ('d, 'v) World" where
  "fetchOperation_resume cfg now op outcome w0 =
     (let w = (if abortInterruptedFetches cfg \<and> \<not> skipStoreUpdates (op_options op)
               then fetchWithAbortControl_finally op (w0\<lparr>pending := remove1 op (pending w0)\<rparr>)
               else w0\<lparr>pending := remove1 op (pending w0)\<rparr>)
      in case outcome of
           RejectedWith e \<Rightarrow>
             (case fetchOperation_catch cfg now op e w of
                (r, w1) \<Rightarrow> fetchOperation_finally op r w1)
         | Resolved rawResult \<Rightarrow>
             (case transform cfg rawResult (op_params op) of
                Inl transformError \<Rightarrow>
                  (case fetchOperation_catch cfg now op
                          (transformFailed cfg (op_key op) transformError) w of
                     (r, w1) \<Rightarrow> fetchOperation_finally op r w1)
              | Inr transformedData \<Rightarrow>
                  if skipStoreUpdates (op_options op)
                  then fetchOperation_finally op (Fulfilled (Some transformedData)) w
                  else
                    (let w1 = set_state (fetchSucceeded cfg now op transformedData) w;
                         w2 = w1\<lparr>lastFetchKey := Some (op_key op)\<rparr>;
                         w3 = scheduleNextFetch cfg now (op_params op) (op_options op) w2
                     in fetchOperation_finally op (Fulfilled (Some transformedData)) w3)))"

text \<open>
  The call \<^verbatim>\<open>fetchOperation()\<close>: the function runs up to its \<^verbatim>\<open>await\<close>. With abort control
  the fetcher is called inside a promise executor, so an exception of the call rejects
  that promise; without, the call is the operand of \<^verbatim>\<open>await\<close> inside \<^verbatim>\<open>try\<close>, so an
  exception of the call runs the catch block at once.
\<close>

definition fetchOperation_begin ::
  "('raw, 'd, 'v) QueryStoreConfig \<Rightarrow> int \<Rightarrow> 'v Params option \<Rightarrow> FetchOptions \<Rightarrow> 'v Params \<Rightarrow> string
     \<Rightarrow> ('d, 'v) World \<Rightarrow> nat \<times> ('d, 'v) World" where
  "fetchOperation_begin cfg now params options effectiveParams currentQueryKey w0 =
     (case newPromise w0 of
        (q, w) \<Rightarrow>
          if abortInterruptedFetches cfg \<and> \<not> skipStoreUpdates options then
            (let c = nextController w;
                 op = \<lparr>op_params = effectiveParams, op_key = currentQueryKey,
                       op_argParams = params, op_options = options, op_promise = q,
                       op_controller = Some c\<rparr>
             in (q, w\<lparr>activeAbortController := Some c,
                      nextController := Suc c,
                      fetcherCalls := fetcherCalls w @ [(effectiveParams, Some c)],
                      pending := pending w @ [op]\<rparr>))
          else
            (let op = \<lparr>op_params = effectiveParams, op_key = currentQueryKey,
                       op_argParams = params, op_options = options, op_promise = q,
                       op_controller = None\<rparr>;
                 w1 = w\<lparr>fetcherCalls := fetcherCalls w @ [(effectiveParams, None)]\<rparr>
             in case fetcher cfg effectiveParams of
                  None \<Rightarrow> (q, w1\<lparr>pending := pending w1 @ [op]\<rparr>)
                | Some e \<Rightarrow>
                    (case fetchOperation_catch cfg now op e w1 of
                       (r, w2) \<Rightarrow> (q, fetchOperation_finally op r w2))))"

subsection \<open>fetch\<close>

text \<open>
  \<^verbatim>\<open>activeFetch?.promise && activeFetch.key === currentQueryKey && isLoading && !options?.force\<close>:
  the promise that \<^verbatim>\<open>fetch\<close> returns from its deduplication branch, if it takes it.
\<close>

definition inFlightPromise :: "string \<Rightarrow> bool \<Rightarrow> FetchOptions \<Rightarrow> ('d, 'v) World \<Rightarrow> nat option" where
  "inFlightPromise currentQueryKey isLoading options w =
     (case activeFetch w of
        None \<Rightarrow> None
      | Some (key, promise) \<Rightarrow>
          (case promise of
             None \<Rightarrow> None
           | Some q \<Rightarrow>
               if key = currentQueryKey \<and> isLoading \<and> \<not> force options then Some q else None))"

text \<open>\<^verbatim>\<open>!isStale && (!errorInfo || errorRetriesExhausted)\<close> of the cache check.\<close>

definition isFresh ::
  "('raw, 'd, 'v) QueryStoreConfig \<Rightarrow> int \<Rightarrow> string \<Rightarrow> FetchOptions \<Rightarrow> ('d, 'v) World \<Rightarrow> bool" where
  "isFresh cfg now currentQueryKey options w =
     (let cacheEntry = map_of (queryCache (state w)) currentQueryKey;
          errorInfo = (case cacheEntry of None \<Rightarrow> None | Some e \<Rightarrow> entry_errorInfo e);
          isStale =
            (case localLastFetchedAt cfg currentQueryKey w of
               None \<Rightarrow> True
             | Some t \<Rightarrow> le_num (effectiveStaleTime cfg options) (Fin (now - t)))
      in \<not> isStale \<and>
         (case errorInfo of None \<Rightarrow> True | Some ei \<Rightarrow> maxRetries cfg \<le> retryCount ei))"

text \<open>\<^verbatim>\<open>cacheEntry?.data ?? null\<close>\<close>

definition cachedData :: "string \<Rightarrow> ('d, 'v) World \<Rightarrow> 'd option" where
  "cachedData currentQueryKey w =
     (case map_of (queryCache (state w)) currentQueryKey of
        None \<Rightarrow> None
      | Some entry \<Rightarrow> entry_data entry)"

text \<open>
  The branch of \<^verbatim>\<open>fetch\<close> that answers from the cache (source lines 741 to 758). \<open>p\<close> is
  the promise of the call and \<open>w1\<close> the world when the branch is entered.
\<close>

definition returnCachedData ::
  "('raw, 'd, 'v) QueryStoreConfig \<Rightarrow> int \<Rightarrow> FetchOptions \<Rightarrow> 'v Params \<Rightarrow> string \<Rightarrow> nat
     \<Rightarrow> ('d, 'v) World \<Rightarrow> nat \<times> ('d, 'v) World" where
  "returnCachedData cfg now options effectiveParams currentQueryKey p w1 =
     (let w2 =
            (if activeRefetchTimeout w1 = None \<and> 0 < subscriptionCount w1
                \<and> staleTime cfg \<noteq> Fin 0 \<and> staleTime cfg \<noteq> Infinity
             then scheduleNextFetch cfg now effectiveParams options w1
             else w1);
          w3 =
            (if keepPreviousData cfg \<and> queryKey (state w1) \<noteq> currentQueryKey
             then set_state (\<lambda>st. st\<lparr>queryKey := currentQueryKey\<rparr>) w2
             else w2)
      in (p, resolvePromise p (Fulfilled (cachedData currentQueryKey w1)) w3))"

text \<open>
  The rest of \<^verbatim>\<open>fetch\<close> (source lines 761 to 769 and 1032 to 1037): the store goes to
  \<open>loading\<close>, \<^verbatim>\<open>fetchOperation()\<close> is called, and its promise is recorded in \<^verbatim>\<open>activeFetch\<close>
  and returned. \<open>error0\<close> and \<open>isLoading\<close> are the \<^verbatim>\<open>error\<close> and \<^verbatim>\<open>status\<close> read at the top of
  \<^verbatim>\<open>fetch\<close>.
\<close>

definition startFetchOperation ::
  "('raw, 'd, 'v) QueryStoreConfig \<Rightarrow> int \<Rightarrow> 'v Params option \<Rightarrow> FetchOptions \<Rightarrow> 'v Params \<Rightarrow> string
     \<Rightarrow> thrown option \<Rightarrow> bool \<Rightarrow> nat \<Rightarrow> ('d, 'v) World \<Rightarrow> nat \<times> ('d, 'v) World" where
  "startFetchOperation cfg now params options effectiveParams currentQueryKey error0 isLoading p w1 =
     (let w2 =
            (if skipStoreUpdates options then w1
             else
               (if error0 \<noteq> None \<or> \<not> isLoading
                then set_state (\<lambda>st. st\<lparr>error := None, status := Loading\<rparr>) w1
                else w1)\<lparr>activeFetch := Some (currentQueryKey, None)\<rparr>)
      in case fetchOperation_begin cfg now params options effectiveParams currentQueryKey w2 of
           (q, w3) \<Rightarrow>
             if skipStoreUpdates options then (p, resolvePromise p (Follows q) w3)
             else
               (p, resolvePromise p (Follows q)
                     (w3\<lparr>activeFetch := Some (currentQueryKey, Some q)\<rparr>)))"

text \<open>
  \<open>fetch cfg now params options w\<close> is the call \<^verbatim>\<open>fetch(params, options)\<close> up to its return:
  the promise it returns and the world it leaves. \<^verbatim>\<open>fetch\<close> is an \<^verbatim>\<open>async\<close> function, so
  the promise \<open>p\<close> it returns is created by the call; \<^verbatim>\<open>return null\<close> and \<^verbatim>\<open>return data\<close> fulfil
  \<open>p\<close>, and \<^verbatim>\<open>return q\<close> for a promise \<open>q\<close> makes \<open>p\<close> follow \<open>q\<close>.
\<close>

definition fetch ::
  "('raw, 'd, 'v) QueryStoreConfig \<Rightarrow> int \<Rightarrow> 'v Params option \<Rightarrow> FetchOptions \<Rightarrow> ('d, 'v) World
     \<Rightarrow> nat \<times> ('d, 'v) World" where
  "fetch cfg now params options w0 =
     (case newPromise w0 of
        (p, w) \<Rightarrow>
          if \<not> force options \<and> \<not> sm_enabled w then (p, resolvePromise p (Fulfilled None) w)
          else
            (let error0 = error (state w);
                 effectiveParams = (case params of Some ps \<Rightarrow> ps | None \<Rightarrow> resolvedParams w);
                 currentQueryKey = getQueryKey (JSON_stringify cfg) effectiveParams;
                 isLoading = (status (state w) = Loading)
             in case inFlightPromise currentQueryKey isLoading options w of
                  Some q \<Rightarrow> (p, resolvePromise p (Follows q) w)
                | None \<Rightarrow>
                    (let w1 = (if abortInterruptedFetches cfg \<and> \<not> skipStoreUpdates options
                               then abortActiveFetch w
                               else w)
                     in if \<not> force options \<and> isFresh cfg now currentQueryKey options w1
                        then returnCachedData cfg now options effectiveParams currentQueryKey p w1
                        else startFetchOperation cfg now params options effectiveParams
                               currentQueryKey error0 isLoading p w1)))"

subsection \<open>getData, isStale and reset\<close>


definition isStale ::
  "('raw, 'd, 'v) QueryStoreConfig \<Rightarrow> int \<Rightarrow> number option \<Rightarrow> ('d, 'v) World \<Rightarrow> bool" where
  "isStale cfg now staleTimeOverride w =
     (case localLastFetchedAt cfg (queryKey (state w)) w of
        None \<Rightarrow> True
      | Some t \<Rightarrow>
          lt_num (case staleTimeOverride of Some s \<Rightarrow> s | None \<Rightarrow> staleTime cfg) (Fin (now - t)))"

definition initialData :: "('raw, 'd, 'v) QueryStoreConfig \<Rightarrow> 'd StoreState" where
  "initialData cfg =
     \<lparr>enabled = initialEnabled cfg, error = None, lastFetchedAt = None, queryCache = [],
      queryKey = [], status = Idle\<rparr>"


subsection \<open>Subscription events, enabling, parameter changes and timers\<close>

text \<open>
  The callbacks given to \<^verbatim>\<open>subscriptionManager.init\<close>. The first line of \<^verbatim>\<open>onSubscribe\<close>
  only applies while \<^verbatim>\<open>createQueryStore\<close> is still running and is left out.
\<close>

definition onSubscribe ::
  "('raw, 'd, 'v) QueryStoreConfig \<Rightarrow> int \<Rightarrow> bool \<Rightarrow> bool \<Rightarrow> bool \<Rightarrow> ('d, 'v) World
     \<Rightarrow> ('d, 'v) World" where
  "onSubscribe cfg now isEnabled isFirstSubscription shouldThrottle w =
     (if \<not> isEnabled then w
      else if isFirstSubscription then
        (let currentParams = resolvedParams w;
             currentQueryKey = getQueryKey (JSON_stringify cfg) currentParams;
             w1 = (if queryKey (state w) \<noteq> currentQueryKey
                   then set_state (\<lambda>st. st\<lparr>queryKey := currentQueryKey\<rparr>) w
                   else w)
         in if isStale cfg now None w1
            then snd (fetch cfg now (Some currentParams) noOptions w1)
            else scheduleNextFetch cfg now currentParams noOptions w1)
      else if disableAutoRefetching cfg \<and> \<not> shouldThrottle
      then snd (fetch cfg now None noOptions w)
      else w)"


text \<open>
  Modelled from the spec: the class \<^verbatim>\<open>SubscriptionManager\<close> is imported from a file that
  is not part of the sources. Following section 4.1 of the specification, \<^verbatim>\<open>subscribe()\<close>
  increments the count and reports the subscription (the first one when the count was
  zero; \<open>shouldThrottle\<close> says whether the previous subscription was less than 500 ms ago),
  releasing a subscription decrements the count and reports the last one leaving, and
  \<^verbatim>\<open>setEnabled\<close> stores the flag.
\<close>

definition subscribe ::
  "('raw, 'd, 'v) QueryStoreConfig \<Rightarrow> int \<Rightarrow> bool \<Rightarrow> ('d, 'v) World \<Rightarrow> ('d, 'v) World" where
  "subscribe cfg now shouldThrottle w =
     onSubscribe cfg now (sm_enabled w) (subscriptionCount w = 0) shouldThrottle
       (w\<lparr>subscriptionCount := Suc (subscriptionCount w)\<rparr>)"


text \<open>
  \<^verbatim>\<open>handleSetEnabled(state, prevState)\<close>, which the wrapped \<^verbatim>\<open>api.subscribe\<close> runs after
  every listener; \<open>prevEnabled\<close> is \<^verbatim>\<open>prevState.enabled\<close>.
\<close>

definition handleSetEnabled ::
  "('raw, 'd, 'v) QueryStoreConfig \<Rightarrow> int \<Rightarrow> bool \<Rightarrow> ('d, 'v) World \<Rightarrow> ('d, 'v) World" where
  "handleSetEnabled cfg now prevEnabled w =
     (let isEnabled = enabled (state w)
      in if isEnabled \<noteq> prevEnabled \<and> lastHandledEnabled w \<noteq> Some isEnabled then
           (let w1 = w\<lparr>lastHandledEnabled := Some isEnabled, sm_enabled := isEnabled\<rparr>
            in if isEnabled then
                 (let currentParams = resolvedParams w1;
                      currentKey = queryKey (state w1)
                  in if Some currentKey \<noteq> lastFetchKey w1 \<or> isStale cfg now None w1
                     then snd (fetch cfg now (Some currentParams) noOptions w1)
                     else scheduleNextFetch cfg now currentParams noOptions w1)
               else clearActiveRefetchTimeout w1)
         else w)"

text \<open>
  \<^verbatim>\<open>setState({ enabled })\<close> on the store: the listeners, and with them \<^verbatim>\<open>handleSetEnabled\<close>,
  run when there is a subscription.
\<close>

definition setEnabled ::
  "('raw, 'd, 'v) QueryStoreConfig \<Rightarrow> int \<Rightarrow> bool \<Rightarrow> ('d, 'v) World \<Rightarrow> ('d, 'v) World" where
  "setEnabled cfg now v w =
     (let w1 = set_state (\<lambda>st. st\<lparr>enabled := v\<rparr>) w
      in if 0 < subscriptionCount w1 then handleSetEnabled cfg now (enabled (state w)) w1 else w1)"


text \<open>
  A reactive parameter changed: \<^verbatim>\<open>getCurrentResolvedParams\<close> now returns \<open>newParams\<close> and
  \<^verbatim>\<open>onParamChange\<close> runs.
\<close>

definition onParamChange ::
  "('raw, 'd, 'v) QueryStoreConfig \<Rightarrow> int \<Rightarrow> 'v Params \<Rightarrow> ('d, 'v) World \<Rightarrow> ('d, 'v) World" where
  "onParamChange cfg now newParams w =
     (let w1 = w\<lparr>resolvedParams := newParams\<rparr>;
          w2 = (if \<not> keepPreviousData cfg
                then set_state (\<lambda>st. st\<lparr>queryKey := getQueryKey (JSON_stringify cfg) newParams\<rparr>) w1
                else w1)
      in snd (fetch cfg now (Some newParams) noOptions w2))"


subsection \<open>Executions\<close>

text \<open>The world when \<^verbatim>\<open>createQueryStore\<close> returns, for a store that is not rehydrated.\<close>

definition initialWorld :: "('raw, 'd, 'v) QueryStoreConfig \<Rightarrow> 'v Params \<Rightarrow> ('d, 'v) World" where
  "initialWorld cfg params =
     \<lparr>state = initialData cfg,
      activeAbortController = None,
      activeFetch = None,
      activeRefetchTimeout = None,
      lastFetchKey = None,
      lastHandledEnabled = None,
      sm_enabled = initialEnabled cfg,
      subscriptionCount = 0,
      resolvedParams = params,
      promises = (\<lambda>p. Pending),
      nextPromise = 0,
      nextController = 0,
      aborted = [],
      timers = [],
      nextTimer = 0,
      pending = [],
      fetcherCalls = [],
      onErrorCalls = []\<rparr>"




subsection \<open>A concrete store\<close>

text \<open>
  A stand-in for \<^verbatim>\<open>JSON.stringify\<close> on arrays of strings, used where a statement is
  evaluated on a concrete store: the values between brackets, separated by commas, with
  \<open>null\<close> for a missing value.
\<close>

fun exampleStringify :: "string option list \<Rightarrow> string" where
  "exampleStringify [] = ''[]''"
| "exampleStringify (v # vs) =
     ''['' @ (case v of None \<Rightarrow> ''null'' | Some s \<Rightarrow> s)
       @ concat (map (\<lambda>u. '','' @ (case u of None \<Rightarrow> ''null'' | Some s \<Rightarrow> s)) vs) @ '']''"

text \<open>
  The configuration with the defaults of the source (\<^verbatim>\<open>cacheTime\<close> seven days,
  \<^verbatim>\<open>staleTime\<close> two minutes, \<^verbatim>\<open>maxRetries\<close> 3, \<^verbatim>\<open>retryDelay\<close> five seconds), a fetcher that
  returns a promise, and no callbacks.
\<close>

definition defaultConfig :: "(int, int, string) QueryStoreConfig" where
  "defaultConfig =
     \<lparr>fetcher = (\<lambda>params. None),
      onError = None,
      setData = False,
      transform = (\<lambda>raw params. Inr raw),
      abortInterruptedFetches = True,
      cacheTime = CacheTimeNumber (Fin 604800000),
      disableAutoRefetching = False,
      disableCache = False,
      initialEnabled = True,
      keepPreviousData = False,
      maxRetries = 3,
      retryDelay = RetryDelayNumber (Fin 5000),
      staleTime = Fin 120000,
      storageKey = None,
      JSON_stringify = exampleStringify\<rparr>"

text \<open>
  \<open>settleLast cfg now outcome w\<close>: the operation started last settles as \<open>outcome\<close> at time
  \<open>now\<close>. \<open>fetchThenSettle\<close> is a call \<^verbatim>\<open>fetch()\<close> followed by that, and \<open>fetchThenFail\<close>
  rejects the operation with an ordinary error.
\<close>

definition settleLast ::
  "('raw, 'd, 'v) QueryStoreConfig \<Rightarrow> int \<Rightarrow> 'raw Settlement \<Rightarrow> ('d, 'v) World \<Rightarrow> ('d, 'v) World" where
  "settleLast cfg now outcome w =
     (case rev (pending w) of
        [] \<Rightarrow> w
      | op # ops \<Rightarrow> fetchOperation_resume cfg now op outcome w)"

definition fetchThenSettle ::
  "('raw, 'd, 'v) QueryStoreConfig \<Rightarrow> int \<Rightarrow> 'raw Settlement \<Rightarrow> ('d, 'v) World \<Rightarrow> ('d, 'v) World" where
  "fetchThenSettle cfg now outcome w =
     settleLast cfg now outcome (snd (fetch cfg now None noOptions w))"

definition networkError :: thrown where
  "networkError = ErrorObj ''Error'' ''x''"

definition fetchThenFail ::
  "('raw, 'd, 'v) QueryStoreConfig \<Rightarrow> int \<Rightarrow> ('d, 'v) World \<Rightarrow> ('d, 'v) World" where
  "fetchThenFail cfg now w = fetchThenSettle cfg now (RejectedWith networkError) w"

text \<open>
  \<open>loadingWorld\<close>: the default store right after its first \<^verbatim>\<open>fetch()\<close>; \<open>firstOp\<close> is the
  operation that call left waiting for the fetcher. \<open>probeWorld\<close>: a second call is made at
  time 1 with \<^verbatim>\<open>{ force: true, skipStoreUpdates: true }\<close>; \<open>probeOp\<close> is its operation.
\<close>

definition loadingWorld :: "(int, string) World" where
  "loadingWorld = snd (fetch defaultConfig 0 None noOptions (initialWorld defaultConfig []))"

definition firstOp :: "string FetchOp" where
  "firstOp =
     \<lparr>op_params = [], op_key = ''[]'', op_argParams = None, op_options = noOptions,
      op_promise = 1, op_controller = Some 0\<rparr>"




text \<open>The keys of the cache, and the retry counters recorded in it, key by key.\<close>

definition cacheKeys :: "('d, 'v) World \<Rightarrow> string list" where
  "cacheKeys w = map fst (queryCache (state w))"

definition retryCounts :: "('d, 'v) World \<Rightarrow> (string \<times> int option) list" where
  "retryCounts w =
     map (\<lambda>(key, entry). (key, map_option retryCount (entry_errorInfo entry)))
       (queryCache (state w))"

text \<open>The hypothesis that the \<^verbatim>\<open>onError\<close> callback, if there is one, returns.\<close>

definition onErrorReturns ::
  "('raw, 'd, 'v) QueryStoreConfig \<Rightarrow> thrown \<Rightarrow> int \<Rightarrow> bool" where
  "onErrorReturns cfg typed count =
     (case onError cfg of None \<Rightarrow> True | Some callback \<Rightarrow> callback typed count = None)"






text \<open>
  A store with \<^verbatim>\<open>keepPreviousData: true\<close> and a cache time of one second. \<open>keepPending\<close>: it
  fetched \<open>1\<close> for the parameter \<open>A\<close> at time 100, and at time 5000 the parameter changed
  to \<open>B\<close>, which started the fetch \<open>keepOp\<close> that is still in flight.
\<close>

definition keepConfig :: "(int, int, string) QueryStoreConfig" where
  "keepConfig = defaultConfig\<lparr>keepPreviousData := True, cacheTime := CacheTimeNumber (Fin 1000)\<rparr>"

definition keepPending :: "(int, string) World" where
  "keepPending =
     onParamChange keepConfig 5000 [(''id'', ''B'')]
       (fetchThenSettle keepConfig 100 (Resolved 1) (initialWorld keepConfig [(''id'', ''A'')]))"

definition keepOp :: "string FetchOp" where
  "keepOp =
     \<lparr>op_params = [(''id'', ''B'')], op_key = ''[B]'', op_argParams = Some [(''id'', ''B'')],
      op_options = noOptions, op_promise = 3, op_controller = Some 1\<rparr>"


text \<open>
  The default store with an \<^verbatim>\<open>onError\<close> callback that throws, and with \<^verbatim>\<open>maxRetries: 0\<close>
  (and \<^verbatim>\<open>keepPreviousData\<close>, so that a failure makes the failed key the state's
  \<^verbatim>\<open>queryKey\<close>).
\<close>

definition throwingOnErrorConfig :: "(int, int, string) QueryStoreConfig" where
  "throwingOnErrorConfig =
     defaultConfig\<lparr>onError := Some (\<lambda>typed count. Some (ErrorObj ''Error'' ''boom''))\<rparr>"


text \<open>
  The default store after a first subscription at time 0, which started a fetch, and
  \<^verbatim>\<open>setState({ enabled: false })\<close> at time 1, while that fetch is in flight.
\<close>

definition disabledWhileLoading :: "(int, string) World" where
  "disabledWhileLoading =
     setEnabled defaultConfig 1 False (subscribe defaultConfig 0 False (initialWorld defaultConfig []))"

subsection \<open>What the store state records about errors\<close>




section \<open>Properties\<close>

subsection \<open>The query key\<close>

lemma sort_keys_eq:
  assumes "distinct (map fst ps)" "distinct (map fst qs)" "map_of ps = map_of qs"
  shows "sort (map fst ps) = sort (map fst qs)"
proof -
  have "fst ` set ps = fst ` set qs"
    using assms(3) by (metis dom_map_of_conv_image_fst)
  then have "set (sort (map fst ps)) = set (sort (map fst qs))" by simp
  moreover have "distinct (sort (map fst ps))" "distinct (sort (map fst qs))"
    using assms by simp_all
  ultimately show ?thesis
    by (intro sorted_distinct_set_unique) simp_all
qed

text \<open>
  Claim C8. Two parameter objects that bind the same keys to the same values, whatever
  the order in which the keys were inserted, have the same query key. An object has each
  key once (\<open>distinct\<close>), and "the same bindings" is equality of the two objects read as
  maps. Values are compared with the equality of the value type; \<^verbatim>\<open>JSON.stringify\<close> is
  any function.
\<close>

theorem getQueryKey_insertion_order:
  assumes "distinct (map fst ps)" and "distinct (map fst qs)" and "map_of ps = map_of qs"
  shows "getQueryKey stringify ps = getQueryKey stringify qs"
  using sort_keys_eq [OF assms] assms(3) by (simp add: getQueryKey_def)

theorem getQueryKey_insertion_order_witness:
  "distinct (map fst [(''b'', ''2''), (''a'', ''1'')])
   \<and> distinct (map fst [(''a'', ''1''), (''b'', ''2'')])
   \<and> map_of [(''b'', ''2''), (''a'', ''1'')] = map_of [(''a'', ''1''), (''b'', ''2'')]
   \<and> getQueryKey exampleStringify [(''b'', ''2''), (''a'', ''1'')] = ''[1,2]''
   \<and> getQueryKey exampleStringify [(''a'', ''1''), (''b'', ''2'')] = ''[1,2]''"
proof -
  have d1: "distinct (map fst [(''b'', ''2''), (''a'', ''1'')])" by simp
  have d2: "distinct (map fst [(''a'', ''1''), (''b'', ''2'')])" by simp
  have m: "map_of [(''b'', ''2''), (''a'', ''1'')] = map_of [(''a'', ''1''), (''b'', ''2'')]"
    by (rule ext) simp
  have e: "getQueryKey exampleStringify [(''a'', ''1''), (''b'', ''2'')] = ''[1,2]''"
    by (simp add: getQueryKey_def)
  from getQueryKey_insertion_order [OF d1 d2 m, of exampleStringify] d1 d2 m e
  show ?thesis by simp
qed

subsection \<open>The refetch timer\<close>






subsection \<open>getData\<close>





subsection \<open>Pruning after a successful fetch\<close>

lemma pruneCache_queryCache:
  "queryCache (pruneCache keepPrevious keyToPreserve pruneTime st)
     = filter (isValid (preservedKey keepPrevious keyToPreserve st) pruneTime) (queryCache st)"
proof -
  have keep: "\<not> list_ex (\<lambda>kv. \<not> P kv) xs \<Longrightarrow> filter P xs = xs" for P and xs :: "'c list"
    by (induction xs) auto
  show ?thesis
    by (simp add: pruneCache_def Let_def keep)
qed

lemma fetchSucceeded_queryCache:
  assumes "\<not> disableCache cfg" "\<not> cacheTimeIsInfinity cfg"
  shows "queryCache (fetchSucceeded cfg now op d st)
     = filter (isValid (Some (op_key op)) now)
         (AList.update (op_key op)
            (successEntry cfg now op (if setData cfg then None else Some d)) (queryCache st))"
  using assms
  by (simp add: fetchSucceeded_def Let_def pruneCache_queryCache preservedKey_def)

lemma map_of_filter_key:
  "(\<And>e. P (k, e)) \<Longrightarrow> map_of (filter P xs) k = map_of xs k"
  by (induction xs) auto

lemma set_update_other:
  "k \<noteq> k' \<Longrightarrow> (k, e) \<in> set (AList.update k' v xs) \<longleftrightarrow> (k, e) \<in> set xs"
  by (induction xs) auto

text \<open>
  Claim C4, as amended. In the pruning pass of a successful cache write (caching enabled,
  \<^verbatim>\<open>cacheTime\<close> not \<^verbatim>\<open>Infinity\<close>) one key is exempt, the key of the fetch: its entry is the one
  just written. Every other entry, the one of the previous \<^verbatim>\<open>queryKey\<close> of the state
  included and whatever \<^verbatim>\<open>keepPreviousData\<close> says, survives exactly when
  \<open>now - (lastFetchedAt if present, else errorInfo.lastFailedAt) \<le> cacheTime\<close>; so every
  surviving entry other than the current key's satisfies that bound.
\<close>

theorem prune_on_success:
  assumes "\<not> disableCache cfg" and "\<not> cacheTimeIsInfinity cfg"
  shows "(\<forall>(k, e) \<in> set (queryCache (fetchSucceeded cfg now op d st)).
            k \<noteq> op_key op \<longrightarrow>
              le_num (Fin (now - lastTimestamp (entry_info e))) (entry_cacheTime e))
         \<and> map_of (queryCache (fetchSucceeded cfg now op d st)) (op_key op)
            = Some (successEntry cfg now op (if setData cfg then None else Some d))
         \<and> (\<forall>(k, e) \<in> set (queryCache st).
              k \<noteq> op_key op \<longrightarrow>
                ((k, e) \<in> set (queryCache (fetchSucceeded cfg now op d st))
                   \<longleftrightarrow> le_num (Fin (now - lastTimestamp (entry_info e))) (entry_cacheTime e)))"
proof (intro conjI)
  show "\<forall>(k, e) \<in> set (queryCache (fetchSucceeded cfg now op d st)).
            k \<noteq> op_key op \<longrightarrow>
              le_num (Fin (now - lastTimestamp (entry_info e))) (entry_cacheTime e)"
    by (auto simp: fetchSucceeded_queryCache [OF assms] isValid_def)
  show "map_of (queryCache (fetchSucceeded cfg now op d st)) (op_key op)
            = Some (successEntry cfg now op (if setData cfg then None else Some d))"
    by (simp add: fetchSucceeded_queryCache [OF assms] map_of_filter_key isValid_def update_conv')
  show "\<forall>(k, e) \<in> set (queryCache st).
              k \<noteq> op_key op \<longrightarrow>
                ((k, e) \<in> set (queryCache (fetchSucceeded cfg now op d st))
                   \<longleftrightarrow> le_num (Fin (now - lastTimestamp (entry_info e))) (entry_cacheTime e))"
    by (auto simp: fetchSucceeded_queryCache [OF assms] isValid_def set_update_other)
qed

theorem prune_on_success_witness:
  "pending keepPending = [keepOp]
   \<and> \<not> disableCache keepConfig \<and> \<not> cacheTimeIsInfinity keepConfig
   \<and> map_of (queryCache (fetchSucceeded keepConfig 5000 keepOp 2 (state keepPending))) ''[B]''
       = Some \<lparr>entry_cacheTime = Fin 1000, entry_data = Some 2, entry_info = FetchedAt 5000 None\<rparr>"
proof -
  have p: "pending keepPending = [keepOp]" by code_simp
  have h: "\<not> disableCache keepConfig" "\<not> cacheTimeIsInfinity keepConfig" by code_simp+
  have e: "successEntry keepConfig 5000 keepOp (if setData keepConfig then None else Some 2)
             = \<lparr>entry_cacheTime = Fin 1000, entry_data = Some 2, entry_info = FetchedAt 5000 None\<rparr>"
    "op_key keepOp = ''[B]''"
    by code_simp+
  from prune_on_success [OF h, of 5000 keepOp 2 "state keepPending"] p h e
  show ?thesis by simp
qed

text \<open>
  The claim as stated fails for the previous key: the store keeps previous data, the
  state's \<^verbatim>\<open>queryKey\<close> is still the key of \<open>A\<close> while the fetch for \<open>B\<close> is in flight, and
  when that fetch succeeds the expired entry of \<open>A\<close> is removed.
\<close>

theorem previous_key_pruned:
  "keepPreviousData keepConfig
   \<and> queryKey (state keepPending) = ''[A]''
   \<and> cacheKeys keepPending = [''[A]'']
   \<and> cacheKeys (settleLast keepConfig 5000 (Resolved 2) keepPending) = [''[B]'']"
  by code_simp

subsection \<open>Aborted fetches\<close>

text \<open>
  Claim C3. When the fetcher rejects with the sentinel \<open>ABORT_ERROR\<close> or with an error
  named \<open>AbortError\<close>, the catch block returns null and changes nothing, and the
  continuation of the fetch fulfils the fetch's promise with null and leaves the store
  state (query cache, status, error, retry counters), the timer slot and the armed timers
  as they were; \<^verbatim>\<open>onError\<close> is not called.
\<close>

theorem abort_is_noop:
  assumes "isAbortError e"
  shows "fetchOperation_catch cfg now op e w = (Fulfilled None, w)
     \<and> promises (fetchOperation_resume cfg now op (RejectedWith e) w) (op_promise op) = Fulfilled None
     \<and> state (fetchOperation_resume cfg now op (RejectedWith e) w) = state w
     \<and> activeRefetchTimeout (fetchOperation_resume cfg now op (RejectedWith e) w)
          = activeRefetchTimeout w
     \<and> timers (fetchOperation_resume cfg now op (RejectedWith e) w) = timers w
     \<and> onErrorCalls (fetchOperation_resume cfg now op (RejectedWith e) w) = onErrorCalls w"
  using assms
  by (simp add: fetchOperation_catch_def fetchOperation_resume_def fetchOperation_finally_def
      fetchWithAbortControl_finally_def resolvePromise_def Let_def split: option.splits)

theorem abort_is_noop_witness:
  "isAbortError ABORT_ERROR \<and> isAbortError (ErrorObj ''AbortError'' ''The user aborted a request.'')
   \<and> pending loadingWorld = [firstOp]
   \<and> status (state loadingWorld) = Loading
   \<and> promiseOutcome (fetchOperation_resume defaultConfig 5 firstOp (RejectedWith ABORT_ERROR) loadingWorld) 0
        = Fulfilled None
   \<and> state (fetchOperation_resume defaultConfig 5 firstOp (RejectedWith ABORT_ERROR) loadingWorld)
        = state loadingWorld
   \<and> state (fetchOperation_resume defaultConfig 5 firstOp
               (RejectedWith (ErrorObj ''AbortError'' ''The user aborted a request.'')) loadingWorld)
        = state loadingWorld"
proof -
  have a: "isAbortError ABORT_ERROR"
    "isAbortError (ErrorObj ''AbortError'' ''The user aborted a request.'')"
    by simp_all
  have p: "pending loadingWorld = [firstOp]" "status (state loadingWorld) = Loading"
    by code_simp+
  have o: "promiseOutcome (fetchOperation_resume defaultConfig 5 firstOp (RejectedWith ABORT_ERROR)
             loadingWorld) 0 = Fulfilled None"
    by code_simp
  from abort_is_noop [OF a(1), of defaultConfig 5 firstOp loadingWorld]
    abort_is_noop [OF a(2), of defaultConfig 5 firstOp loadingWorld] a p o
  show ?thesis by simp
qed

subsection \<open>Failures of a fetch made with skipStoreUpdates\<close>



subsection \<open>The error handler\<close>








subsection \<open>In-flight deduplication\<close>

text \<open>
  Claim C1, as amended. When \<^verbatim>\<open>fetch\<close> is called without \<^verbatim>\<open>force\<close> on an enabled store
  while \<^verbatim>\<open>activeFetch\<close> holds a promise \<open>q\<close> for the same query key and the status is
  \<open>loading\<close>, the call returns a new promise that is resolved with \<open>q\<close>, and so settles
  as the in-flight fetch does; it is not \<open>q\<close> itself, because \<^verbatim>\<open>fetch\<close> is an \<^verbatim>\<open>async\<close>
  function. The fetcher is not called, and nothing of the world changes but the new
  promise.
\<close>

theorem fetch_deduplicates:
  assumes "activeFetch w = Some (key, Some q)"
    and "key = getQueryKey (JSON_stringify cfg)
                 (case params of Some ps \<Rightarrow> ps | None \<Rightarrow> resolvedParams w)"
    and "status (state w) = Loading" and "\<not> force options" and "sm_enabled w"
  shows "fetch cfg now params options w
           = (nextPromise w,
              w\<lparr>promises := (promises w)(nextPromise w := Follows q),
                nextPromise := Suc (nextPromise w)\<rparr>)
     \<and> fetcherCalls (snd (fetch cfg now params options w)) = fetcherCalls w
     \<and> state (snd (fetch cfg now params options w)) = state w
     \<and> (q < nextPromise w \<longrightarrow>
          fst (fetch cfg now params options w) \<noteq> q
          \<and> promiseOutcome (snd (fetch cfg now params options w))
               (fst (fetch cfg now params options w)) = promises w q)"
proof -
  have "fetch cfg now params options w
           = (nextPromise w,
              w\<lparr>promises := (promises w)(nextPromise w := Follows q),
                nextPromise := Suc (nextPromise w)\<rparr>)"
    using assms
    by (cases params)
       (simp_all add: fetch_def newPromise_def inFlightPromise_def resolvePromise_def Let_def)
  then show ?thesis by (simp add: promiseOutcome_def)
qed

theorem fetch_deduplicates_witness:
  "activeFetch loadingWorld = Some (''[]'', Some 1)
   \<and> ''[]'' = getQueryKey (JSON_stringify defaultConfig)
                (case None of Some ps \<Rightarrow> ps | None \<Rightarrow> resolvedParams loadingWorld)
   \<and> status (state loadingWorld) = Loading \<and> \<not> force noOptions \<and> sm_enabled loadingWorld
   \<and> 1 < nextPromise loadingWorld
   \<and> fst (fetch defaultConfig 1 None noOptions loadingWorld) = 2
   \<and> promiseOutcome (snd (fetch defaultConfig 1 None noOptions loadingWorld))
        (fst (fetch defaultConfig 1 None noOptions loadingWorld)) = Pending
   \<and> fetcherCalls (snd (fetch defaultConfig 1 None noOptions loadingWorld)) = [([], Some 0)]"
proof -
  have h: "activeFetch loadingWorld = Some (''[]'', Some 1)"
    "''[]'' = getQueryKey (JSON_stringify defaultConfig)
                (case None of Some ps \<Rightarrow> ps | None \<Rightarrow> resolvedParams loadingWorld)"
    "status (state loadingWorld) = Loading" "\<not> force noOptions" "sm_enabled loadingWorld"
    by code_simp+
  have n: "nextPromise loadingWorld = 2" "promises loadingWorld 1 = Pending"
    "fetcherCalls loadingWorld = [([], Some 0)]"
    by code_simp+
  note t = fetch_deduplicates [OF h, of 1]
  have c1: "fst (fetch defaultConfig 1 None noOptions loadingWorld) = 2"
    using t [THEN conjunct1] n by simp
  have c2: "fetcherCalls (snd (fetch defaultConfig 1 None noOptions loadingWorld)) = [([], Some 0)]"
    using t [THEN conjunct2, THEN conjunct1] n by simp
  have c3: "promiseOutcome (snd (fetch defaultConfig 1 None noOptions loadingWorld))
              (fst (fetch defaultConfig 1 None noOptions loadingWorld)) = Pending"
    using t [THEN conjunct2, THEN conjunct2, THEN conjunct2] n by simp
  from h n c1 c2 c3 show ?thesis by simp
qed

text \<open>
  The claim as stated fails twice. The promise returned is not the in-flight one: the
  first \<^verbatim>\<open>fetch()\<close> returned the promise 0 and recorded the promise 1 of its
  \<^verbatim>\<open>fetchOperation\<close> in \<^verbatim>\<open>activeFetch\<close>; the second call returns the promise 2. And when the
  store was disabled while the fetch is in flight, the second call returns null without
  looking at \<^verbatim>\<open>activeFetch\<close>.
\<close>

theorem deduplicated_fetch_is_a_new_promise:
  "fst (fetch defaultConfig 0 None noOptions (initialWorld defaultConfig [])) = 0
   \<and> activeFetch loadingWorld = Some (''[]'', Some 1)
   \<and> status (state loadingWorld) = Loading
   \<and> fst (fetch defaultConfig 1 None noOptions loadingWorld) = 2
   \<and> activeFetch disabledWhileLoading = Some (''[]'', Some 1)
   \<and> status (state disabledWhileLoading) = Loading
   \<and> getQueryKey (JSON_stringify defaultConfig) (resolvedParams disabledWhileLoading) = ''[]''
   \<and> promiseOutcome disabledWhileLoading 1 = Pending
   \<and> promiseOutcome (snd (fetch defaultConfig 2 None noOptions disabledWhileLoading))
        (fst (fetch defaultConfig 2 None noOptions disabledWhileLoading)) = Fulfilled None"
  by code_simp

subsection \<open>The promise returned by fetch\<close>

text \<open>
  Two facts about the promise of a fetch. A call made without \<^verbatim>\<open>force\<close> on a disabled
  store returns a promise fulfilled with null and changes nothing else: the fetcher is not
  called and the state is not touched. And an operation of a store whose \<^verbatim>\<open>onError\<close>
  callback always returns ends with its promise fulfilled, with the data or with null.
\<close>

lemma fetch_disabled:
  assumes "\<not> force options" and "\<not> sm_enabled w"
  shows "fetch cfg now params options w
           = (nextPromise w,
              w\<lparr>promises := (promises w)(nextPromise w := Fulfilled None),
                nextPromise := Suc (nextPromise w)\<rparr>)"
  using assms by (simp add: fetch_def newPromise_def resolvePromise_def)

lemma catch_fulfils_when_onError_returns:
  assumes "\<And>typed count. onErrorReturns cfg typed count"
  shows "fst (fetchOperation_catch cfg now op e w) = Fulfilled None"
  using assms [of "typedError e" "currentRetryCount (catchEntry cfg (op_key op) w)"]
  by (cases "onError cfg") (simp_all add: fetchOperation_catch_def onErrorReturns_def Let_def)

lemma resume_fulfils_when_onError_returns:
  assumes "\<And>typed count. onErrorReturns cfg typed count"
  shows "\<exists>r. promises (fetchOperation_resume cfg now op outcome w) (op_promise op) = Fulfilled r"
proof -
  have c: "r = Fulfilled None" if "fetchOperation_catch cfg now op e w' = (r, w'')"
    for e r and w' w'' :: "('b, 'c) World"
    using catch_fulfils_when_onError_returns [OF assms, of now op e w'] that by simp
  show ?thesis
    by (auto simp: fetchOperation_resume_def fetchOperation_finally_def resolvePromise_def Let_def
        split: Settlement.splits sum.splits prod.splits dest!: c)
qed

text \<open>
  Claim C2 fails on the code. \<^verbatim>\<open>onError\<close> is called in the catch block outside any
  \<^verbatim>\<open>try\<close>: when the fetcher rejects with an ordinary error and the callback throws, the
  exception leaves \<^verbatim>\<open>fetchOperation\<close>, and the promise that \<^verbatim>\<open>fetch()\<close> returned (promise 0)
  is rejected with it. The error is not recorded and the status stays \<open>loading\<close>.
\<close>

theorem fetch_rejects_when_onError_throws:
  "fst (fetch throwingOnErrorConfig 0 None noOptions (initialWorld throwingOnErrorConfig [])) = 0
   \<and> promiseOutcome (fetchThenFail throwingOnErrorConfig 0 (initialWorld throwingOnErrorConfig [])) 0
        = Rejected (ErrorObj ''Error'' ''boom'')
   \<and> onErrorCalls (fetchThenFail throwingOnErrorConfig 0 (initialWorld throwingOnErrorConfig []))
        = [(networkError, 0)]
   \<and> status (state (fetchThenFail throwingOnErrorConfig 0 (initialWorld throwingOnErrorConfig [])))
        = Loading
   \<and> retryCounts (fetchThenFail throwingOnErrorConfig 0 (initialWorld throwingOnErrorConfig [])) = []"
  by code_simp

subsection \<open>The error status\<close>













lemma state_clearActiveRefetchTimeout [simp]: "state (clearActiveRefetchTimeout w) = state w"
  by (simp add: clearActiveRefetchTimeout_def split: option.splits)

lemma state_abortActiveFetch [simp]: "state (abortActiveFetch w) = state w"
  by (simp add: abortActiveFetch_def split: option.splits)

lemma state_setTimeout [simp]: "state (setTimeout t w) = state w"
  by (simp add: setTimeout_def)

lemma state_scheduleNextFetch [simp]: "state (scheduleNextFetch cfg now params options w) = state w"
  by (simp add: scheduleNextFetch_def Let_def split: number.splits)

lemma state_resolvePromise [simp]: "state (resolvePromise p r w) = state w"
  by (simp add: resolvePromise_def)

lemma state_newPromise [simp]: "state (snd (newPromise w)) = state w"
  by (simp add: newPromise_def)

lemma state_fetchOperation_finally [simp]: "state (fetchOperation_finally op r w) = state w"
  by (simp add: fetchOperation_finally_def)

lemma state_fetchWithAbortControl_finally [simp]:
  "state (fetchWithAbortControl_finally op w) = state w"
  by (simp add: fetchWithAbortControl_finally_def split: option.splits)

lemma state_set_state [simp]: "state (set_state f w) = f (state w)"
  by (simp add: set_state_def)


























end
